theory Spec2Isabelle
  imports Main "HOL-Library.Sublist"
begin

section \<open>Data model\<close>

text \<open>
  A repository descriptor as the listing API returns it (only the two fields that
  \<^verbatim>\<open>index.js\<close> reads), a branch descriptor as the branches API returns it, and
  the aggregate that \<^verbatim>\<open>cloneRepo\<close> returns.
\<close>

record repo =
  name :: string
  fork :: bool

record branch_info =
  branch_name :: string

record CloneResult =
  success :: bool
  successfulBranches :: nat
  failedBranches :: nat

text \<open>
  The result of \<^verbatim>\<open>axios.get\<close>: the response data, or a thrown error carrying the
  HTTP status of \<^verbatim>\<open>error.response?.status\<close> when there is one.
\<close>

datatype 'a response = Ok 'a | Failed "nat option"

text \<open>
  The result of \<^verbatim>\<open>git.clone\<close>: the entries of the directory it wrote, or a thrown
  error with its message and the entries of a partial directory when one is left behind.
\<close>

datatype clone_result = CloneOk "string list" | CloneFailed string "string list option"

text \<open>A function either returns or ends the process (\<^verbatim>\<open>process.exit\<close>).\<close>

datatype 'a outcome = Returned 'a | Exited nat

section \<open>The world outside the script\<close>

text \<open>
  The network and \<^verbatim>\<open>git\<close> are oracles indexed by the number of external calls made so
  far, so that a retry may see a different answer. \<^verbatim>\<open>GITHUB_TOKEN\<close> and
  \<^verbatim>\<open>__dirname\<close> are read once.
\<close>

record env =
  GITHUB_TOKEN :: "string option"
  dirname :: string
  repos_api :: "nat \<Rightarrow> string \<Rightarrow> nat \<Rightarrow> repo list response"
  branches_api :: "nat \<Rightarrow> string \<Rightarrow> string \<Rightarrow> branch_info list response"
  clone_api :: "nat \<Rightarrow> string \<Rightarrow> string \<Rightarrow> string list \<Rightarrow> clone_result"
  submoduleInit_api :: "nat \<Rightarrow> string \<Rightarrow> string option"

text \<open>
  The state the script changes: the directories on disk (each with the entries it was
  written with), the pages and branch lists requested, the \<^verbatim>\<open>git.clone\<close> calls made,
  the number of external calls, and the milliseconds slept.
\<close>

datatype request = ReposPage string nat | Branches string string

record world =
  fs :: "string \<Rightarrow> string list option"
  requests :: "request list"
  clones :: "(string \<times> string \<times> string list) list"
  tick :: nat
  slept :: nat

definition delay :: "nat \<Rightarrow> world \<Rightarrow> world" where
  "delay ms w = w\<lparr>slept := slept w + ms\<rparr>"

subsection \<open>File system\<close>

text \<open>
  \<^verbatim>\<open>path.join\<close> on segments that need no normalisation. The file-system calls are
  taken to succeed: \<^verbatim>\<open>mkdirSync\<close> with \<^verbatim>\<open>recursive\<close> creates the missing
  ancestors too, \<^verbatim>\<open>rmSync\<close> with \<^verbatim>\<open>recursive\<close> and \<^verbatim>\<open>force\<close> removes the path
  and everything below it.
\<close>

definition path_join :: "string \<Rightarrow> string \<Rightarrow> string" where
  "path_join a b = a @ ''/'' @ b"

definition below :: "string \<Rightarrow> string \<Rightarrow> bool" where
  "below p q = prefix (p @ ''/'') q"

definition existsSync :: "string \<Rightarrow> world \<Rightarrow> bool" where
  "existsSync p w = (fs w p \<noteq> None)"

definition mkdirSync :: "string \<Rightarrow> world \<Rightarrow> world" where
  "mkdirSync p w =
     w\<lparr>fs := (\<lambda>q. if (q = p \<or> below q p) \<and> fs w q = None then Some [] else fs w q)\<rparr>"

definition rmSync :: "string \<Rightarrow> world \<Rightarrow> world" where
  "rmSync p w = w\<lparr>fs := (\<lambda>q. if q = p \<or> below p q then None else fs w q)\<rparr>"

definition readdirSync :: "string \<Rightarrow> world \<Rightarrow> string list option" where
  "readdirSync p w = fs w p"

subsection \<open>Strings\<close>

text \<open>
  \<^verbatim>\<open>String.prototype.replace\<close> with a string pattern: the first occurrence only.
\<close>

fun replace :: "string \<Rightarrow> string \<Rightarrow> string \<Rightarrow> string" where
  "replace pat rep [] = (if pat = [] then rep else [])"
| "replace pat rep (c # cs) =
     (if prefix pat (c # cs) then rep @ drop (length pat) (c # cs)
      else c # replace pat rep cs)"

text \<open>Line 185: \<^verbatim>\<open>const branchDirName = branch.replace("/", "-")\<close>.\<close>

definition branchDirName :: "string \<Rightarrow> string" where
  "branchDirName branch = replace ''/'' ''-'' branch"

section \<open>Listing repositories and branches\<close>

text \<open>
  One \<^verbatim>\<open>axios.get\<close>: the oracle answers, the request is recorded. The headers do not
  change what the script does with the answer.
\<close>

definition get_repos :: "env \<Rightarrow> string \<Rightarrow> nat \<Rightarrow> world \<Rightarrow> repo list response \<times> world" where
  "get_repos env username page w =
     (repos_api env (tick w) username page,
      w\<lparr>requests := requests w @ [ReposPage username page], tick := tick w + 1\<rparr>)"

definition get_branches ::
  "env \<Rightarrow> string \<Rightarrow> string \<Rightarrow> world \<Rightarrow> branch_info list response \<times> world" where
  "get_branches env username repoName w =
     (branches_api env (tick w) username repoName,
      w\<lparr>requests := requests w @ [Branches username repoName], tick := tick w + 1\<rparr>)"

definition maxRetries :: nat where
  "maxRetries = 3"

text \<open>
  \<^verbatim>\<open>fetchAllRepos\<close>, lines 9 to 49. The two nested \<^verbatim>\<open>while\<close> loops are one
  recursion on \<^verbatim>\<open>(repos, page, retryCount)\<close>: \<^verbatim>\<open>break\<close> leaves the inner loop and
  the outer one starts it again with \<^verbatim>\<open>retryCount = 0\<close>. The endpoint may serve
  non-empty pages for ever, so the loop is partial: \<open>None\<close> is a run that never returns.
  The outer loop is \<^verbatim>\<open>while (true)\<close> and is left only by \<^verbatim>\<open>return repos\<close> (lines 22
  and 41) or \<^verbatim>\<open>process.exit(1)\<close> (line 37); control never reaches line 48,
  \<^verbatim>\<open>return repos.filter((repo) => !repo.fork)\<close>, which therefore has no branch here.
\<close>

partial_function (option) fetchAllRepos_loop ::
  "env \<Rightarrow> string \<Rightarrow> repo list \<Rightarrow> nat \<Rightarrow> nat \<Rightarrow> world \<Rightarrow> (repo list outcome \<times> world) option" where
  "fetchAllRepos_loop env username repos page retryCount w =
     (if retryCount < maxRetries then
        (case get_repos env username page w of
           (Ok data, w1) \<Rightarrow>
             if length data = 0 then Some (Returned repos, w1)
             else fetchAllRepos_loop env username (repos @ data) (page + 1) 0 w1
         | (Failed status, w1) \<Rightarrow>
             if status = Some 403 then Some (Exited 1, w1)
             else if retryCount + 1 = maxRetries then Some (Returned repos, w1)
             else fetchAllRepos_loop env username repos page (retryCount + 1)
                    (delay (1000 * (retryCount + 1)) w1))
      else fetchAllRepos_loop env username repos page 0 w)"

declare fetchAllRepos_loop.simps [code]

definition fetchAllRepos :: "env \<Rightarrow> string \<Rightarrow> world \<Rightarrow> (repo list outcome \<times> world) option" where
  "fetchAllRepos env username w = fetchAllRepos_loop env username [] 1 0 w"

text \<open>
  \<^verbatim>\<open>fetchBranches\<close>, lines 51 to 80: the same retry loop, bounded by \<^verbatim>\<open>maxRetries\<close>,
  with no exit of the process.
\<close>

function fetchBranches_loop ::
  "env \<Rightarrow> string \<Rightarrow> string \<Rightarrow> nat \<Rightarrow> world \<Rightarrow> string list \<times> world" where
  "fetchBranches_loop env username repoName retryCount w =
     (if retryCount < maxRetries then
        (case get_branches env username repoName w of
           (Ok data, w1) \<Rightarrow> (map branch_name data, w1)
         | (Failed status, w1) \<Rightarrow>
             if status = Some 403 then ([], w1)
             else if retryCount + 1 = maxRetries then ([], w1)
             else fetchBranches_loop env username repoName (retryCount + 1)
                    (delay (1000 * (retryCount + 1)) w1))
      else ([], w))"
  by pat_completeness auto
termination
  by (relation "measure (\<lambda>(env, username, repoName, retryCount, w). maxRetries - retryCount)") auto

declare fetchBranches_loop.simps [simp del]

definition fetchBranches :: "env \<Rightarrow> string \<Rightarrow> string \<Rightarrow> world \<Rightarrow> string list \<times> world" where
  "fetchBranches env username repoName w = fetchBranches_loop env username repoName 0 w"

section \<open>Cloning\<close>

text \<open>
  Lines 94 to 96 and 229 to 231: the token goes into the URL when it is truthy (an empty
  string is not).
\<close>

definition cloneUrl :: "env \<Rightarrow> string \<Rightarrow> repo \<Rightarrow> string" where
  "cloneUrl env username repo =
     (case GITHUB_TOKEN env of
        Some t \<Rightarrow>
          if t \<noteq> [] then ''https://'' @ t @ ''@github.com/'' @ username @ ''/'' @ name repo @ ''.git''
          else ''https://github.com/'' @ username @ ''/'' @ name repo @ ''.git''
      | None \<Rightarrow> ''https://github.com/'' @ username @ ''/'' @ name repo @ ''.git'')"

text \<open>
  One \<^verbatim>\<open>git.clone\<close>: the call is recorded, the oracle answers, and the directory it
  wrote (whole or partial) appears on disk together with its missing ancestors.
\<close>

definition write_dir :: "string \<Rightarrow> string list \<Rightarrow> world \<Rightarrow> world" where
  "write_dir p items w =
     w\<lparr>fs := (\<lambda>q. if q = p then Some items
                  else if below q p \<and> fs w q = None then Some [] else fs w q)\<rparr>"

definition git_clone ::
  "env \<Rightarrow> string \<Rightarrow> string \<Rightarrow> string list \<Rightarrow> world \<Rightarrow> clone_result \<times> world" where
  "git_clone env url p opts w =
     (let r = clone_api env (tick w) url p opts;
          w1 = w\<lparr>clones := clones w @ [(url, p, opts)], tick := tick w + 1\<rparr>
      in (r, case r of
               CloneOk items \<Rightarrow> write_dir p items w1
             | CloneFailed msg None \<Rightarrow> w1
             | CloneFailed msg (Some items) \<Rightarrow> write_dir p items w1))"

text \<open>
  Lines 118 to 135: \<^verbatim>\<open>submoduleInit\<close>, then \<^verbatim>\<open>submoduleUpdate\<close> unless the first
  threw. An error of either is caught and only logged; the console is not part of the
  world, so the step shows in the number of external calls alone, and what
  \<^verbatim>\<open>submoduleUpdate\<close> answers changes nothing.
\<close>

definition update_submodules :: "env \<Rightarrow> string \<Rightarrow> world \<Rightarrow> world" where
  "update_submodules env branchPath w =
     (case submoduleInit_api env (tick w) branchPath of
        Some submoduleError \<Rightarrow> w\<lparr>tick := tick w + 1\<rparr>
      | None \<Rightarrow> w\<lparr>tick := tick w + 2\<rparr>)"

text \<open>
  The \<^verbatim>\<open>try\<close> block of \<^verbatim>\<open>cloneBranch\<close>, lines 89 to 142: \<open>Inl\<close> is the value it
  returns, \<open>Inr\<close> the world in which \<^verbatim>\<open>git.clone\<close> or \<^verbatim>\<open>readdirSync\<close> threw.
\<close>

definition cloneBranch_try ::
  "env \<Rightarrow> string \<Rightarrow> repo \<Rightarrow> string \<Rightarrow> string \<Rightarrow> world \<Rightarrow> (bool \<times> world) + world" where
  "cloneBranch_try env username repo branch branchPath w =
     (if \<not> existsSync branchPath w then
        (case git_clone env (cloneUrl env username repo) branchPath
                [''--branch'', branch, ''--single-branch'', ''--depth'', ''1''] w of
           (CloneOk written, w1) \<Rightarrow>
             (case readdirSync branchPath w1 of
                Some items \<Rightarrow>
                  if length (filter (\<lambda>item. item \<noteq> ''.git'') items) = 0
                  then Inl (False, rmSync branchPath w1)
                  else Inl (True, update_submodules env branchPath w1)
              | None \<Rightarrow> Inr w1)
         | (CloneFailed msg partial, w1) \<Rightarrow> Inr w1)
      else Inl (True, w))"

text \<open>
  \<^verbatim>\<open>cloneBranch\<close>, lines 86 to 161: the \<^verbatim>\<open>for\<close> loop over the attempts with its
  \<^verbatim>\<open>catch\<close> block (lines 143 to 158).
\<close>

function cloneBranch_loop ::
  "env \<Rightarrow> string \<Rightarrow> repo \<Rightarrow> string \<Rightarrow> string \<Rightarrow> nat \<Rightarrow> nat \<Rightarrow> world \<Rightarrow> bool \<times> world" where
  "cloneBranch_loop env username repo branch branchPath retries attempt w =
     (if attempt \<le> retries then
        (case cloneBranch_try env username repo branch branchPath w of
           Inl r \<Rightarrow> r
         | Inr w1 \<Rightarrow>
             (let w2 = (if existsSync branchPath w1 then rmSync branchPath w1 else w1)
              in if attempt < retries
                 then cloneBranch_loop env username repo branch branchPath retries (attempt + 1)
                        (delay (2 ^ (attempt - 1) * 500) w2)
                 else (False, w2)))
      else (False, w))"
  by pat_completeness auto
termination
  by (relation "measure (\<lambda>(env, username, repo, branch, branchPath, retries, attempt, w).
                  Suc retries - attempt)") auto

declare cloneBranch_loop.simps [simp del]

definition cloneBranch ::
  "env \<Rightarrow> string \<Rightarrow> repo \<Rightarrow> string \<Rightarrow> string \<Rightarrow> nat \<Rightarrow> world \<Rightarrow> bool \<times> world" where
  "cloneBranch env username repo branch branchPath retries w =
     cloneBranch_loop env username repo branch branchPath retries 1 w"

text \<open>
  The \<^verbatim>\<open>for\<close> loop of \<^verbatim>\<open>cloneRepo\<close>, lines 184 to 196, on the two counters;
  \<^verbatim>\<open>cloneBranch\<close> is called with its default \<^verbatim>\<open>retries = 3\<close>.
\<close>

fun cloneRepo_loop ::
  "env \<Rightarrow> string \<Rightarrow> repo \<Rightarrow> string \<Rightarrow> string list \<Rightarrow> nat \<Rightarrow> nat \<Rightarrow> world \<Rightarrow> nat \<times> nat \<times> world" where
  "cloneRepo_loop env username repo repoPath [] successful failed w = (successful, failed, w)"
| "cloneRepo_loop env username repo repoPath (branch # rest) successful failed w =
     (case cloneBranch env username repo branch (path_join repoPath (branchDirName branch)) 3 w of
        (ok, w1) \<Rightarrow>
          if ok then cloneRepo_loop env username repo repoPath rest (successful + 1) failed
                       (delay 500 w1)
          else cloneRepo_loop env username repo repoPath rest successful (failed + 1)
                 (delay 500 w1))"

text \<open>
  \<^verbatim>\<open>cloneRepo\<close>, lines 163 to 216. Nothing in its \<^verbatim>\<open>try\<close> block throws here
  (\<^verbatim>\<open>fetchBranches\<close> and \<^verbatim>\<open>cloneBranch\<close> catch their own errors, the file-system
  calls succeed, branch names are strings), so the handler of lines 212 to 215 has no
  branch.
\<close>

definition cloneRepo :: "env \<Rightarrow> string \<Rightarrow> repo \<Rightarrow> string \<Rightarrow> world \<Rightarrow> CloneResult \<times> world" where
  "cloneRepo env username repo outputDir w =
     (let repoPath = path_join outputDir (name repo);
          w0 = (if \<not> existsSync repoPath w then mkdirSync repoPath w else w)
      in case fetchBranches env username (name repo) w0 of
           (branches, w1) \<Rightarrow>
             if length branches = 0
             then (\<lparr>success = False, successfulBranches = 0, failedBranches = 0\<rparr>, w1)
             else (case cloneRepo_loop env username repo repoPath branches 0 0 w1 of
                     (successful, failed, w2) \<Rightarrow>
                       (\<lparr>success = (successful > 0), successfulBranches = successful,
                         failedBranches = failed\<rparr>,
                        if successful = 0 then rmSync repoPath w2 else w2)))"

text \<open>
  \<^verbatim>\<open>cloneRootRepo\<close>, lines 218 to 241; the \<^verbatim>\<open>success\<close> field is all it returns.
\<close>

definition cloneRootRepo :: "env \<Rightarrow> string \<Rightarrow> repo \<Rightarrow> string \<Rightarrow> world \<Rightarrow> bool \<times> world" where
  "cloneRootRepo env username repo outputDir w =
     (let repoPath = path_join outputDir (name repo);
          w0 = (if \<not> existsSync repoPath w then mkdirSync repoPath w else w)
      in case git_clone env (cloneUrl env username repo) repoPath [''--depth'', ''1''] w0 of
           (CloneOk written, w1) \<Rightarrow> (True, w1)
         | (CloneFailed msg partial, w1) \<Rightarrow> (False, w1))"

section \<open>The run\<close>

record totals =
  totalSuccessfulRepos :: nat
  totalFailedRepos :: nat
  totalSuccessfulBranches :: nat
  totalFailedBranches :: nat

text \<open>The body of the \<^verbatim>\<open>for\<close> loop of the main function, lines 287 to 304.\<close>

definition main_step ::
  "env \<Rightarrow> string \<Rightarrow> string \<Rightarrow> bool \<Rightarrow> repo \<Rightarrow> totals \<times> world \<Rightarrow> totals \<times> world" where
  "main_step env username outputDir fetchBranchesOption repo tw =
     (case tw of (t, w) \<Rightarrow>
        (case (if fetchBranchesOption
               then (case cloneRepo env username repo outputDir w of
                       (result, w1) \<Rightarrow>
                         (success result,
                          if success result
                          then t\<lparr>totalSuccessfulBranches :=
                                   totalSuccessfulBranches t + successfulBranches result,
                                 totalFailedBranches :=
                                   totalFailedBranches t + failedBranches result\<rparr>
                          else t,
                          w1))
               else (case cloneRootRepo env username repo outputDir w of
                       (ok, w1) \<Rightarrow> (ok, t, w1))) of
           (ok, t1, w1) \<Rightarrow>
             (if ok then t1\<lparr>totalSuccessfulRepos := totalSuccessfulRepos t1 + 1\<rparr>
              else t1\<lparr>totalFailedRepos := totalFailedRepos t1 + 1\<rparr>,
              delay 1000 w1)))"

fun main_loop ::
  "env \<Rightarrow> string \<Rightarrow> string \<Rightarrow> bool \<Rightarrow> repo list \<Rightarrow> totals \<times> world \<Rightarrow> totals \<times> world" where
  "main_loop env username outputDir fetchBranchesOption [] tw = tw"
| "main_loop env username outputDir fetchBranchesOption (repo # rest) tw =
     main_loop env username outputDir fetchBranchesOption rest
       (main_step env username outputDir fetchBranchesOption repo tw)"

datatype run = ExitCode nat | NoRepositories | Summary totals

text \<open>
  The main function, lines 243 to 318, on the arguments after the script's name.
  \<open>None\<close> is a run whose listing never ends.
\<close>

definition main :: "env \<Rightarrow> string list \<Rightarrow> world \<Rightarrow> (run \<times> world) option" where
  "main env args w =
     (if length args = 0 then Some (ExitCode 1, w)
      else
        (let username = args ! 0;
             fetchBranchesOption = (''--fetch-branches'' \<in> set args);
             outputDir = path_join (path_join (dirname env) ''repositories'') username;
             w0 = (if \<not> existsSync outputDir w then mkdirSync outputDir w else w)
         in case fetchAllRepos env username w0 of
              None \<Rightarrow> None
            | Some (Exited code, w1) \<Rightarrow> Some (ExitCode code, w1)
            | Some (Returned repos, w1) \<Rightarrow>
                if length repos = 0 then Some (NoRepositories, w1)
                else (case main_loop env username outputDir fetchBranchesOption repos
                             (\<lparr>totalSuccessfulRepos = 0, totalFailedRepos = 0,
                               totalSuccessfulBranches = 0, totalFailedBranches = 0\<rparr>, w1) of
                        (t, w2) \<Rightarrow> Some (Summary t, w2))))"

text \<open>
  The values that the calls of \<^verbatim>\<open>cloneBranch\<close> return during the loop of
  \<^verbatim>\<open>cloneRepo\<close>, in the order of the branches.
\<close>

fun branch_results ::
  "env \<Rightarrow> string \<Rightarrow> repo \<Rightarrow> string \<Rightarrow> string list \<Rightarrow> world \<Rightarrow> bool list" where
  "branch_results env username repo repoPath [] w = []"
| "branch_results env username repo repoPath (branch # rest) w =
     (case cloneBranch env username repo branch (path_join repoPath (branchDirName branch)) 3 w of
        (ok, w1) \<Rightarrow> ok # branch_results env username repo repoPath rest (delay 500 w1))"

text \<open>An error of \<^verbatim>\<open>axios.get\<close> other than the rate limit (status 403).\<close>

definition other_error :: "'a response \<Rightarrow> bool" where
  "other_error r = (case r of Ok data \<Rightarrow> False | Failed status \<Rightarrow> status \<noteq> Some 403)"

section \<open>Example worlds\<close>

definition on_disk :: "(string \<times> string list) list \<Rightarrow> world" where
  "on_disk dirs = \<lparr>fs = map_of dirs, requests = [], clones = [], tick = 0, slept = 0\<rparr>"

text \<open>
  An environment without a token in which the answers depend only on the number of the
  call (and, for the listing, on the page).
\<close>

definition scripted ::
  "(nat \<Rightarrow> nat \<Rightarrow> repo list response) \<Rightarrow> (nat \<Rightarrow> branch_info list response) \<Rightarrow>
   (nat \<Rightarrow> clone_result) \<Rightarrow> env" where
  "scripted listing branches cloning =
     \<lparr>GITHUB_TOKEN = None, dirname = ''.'',
      repos_api = (\<lambda>t username page. listing t page),
      branches_api = (\<lambda>t username repoName. branches t),
      clone_api = (\<lambda>t url p opts. cloning t),
      submoduleInit_api = (\<lambda>t p. Some ''no submodule mapping found'')\<rparr>"

definition forked :: repo where
  "forked = \<lparr>name = ''copied'', fork = True\<rparr>"

definition original :: repo where
  "original = \<lparr>name = ''written'', fork = False\<rparr>"

text \<open>A listing of two pages of one repository each; every later page is empty.\<close>

definition two_pages :: "nat \<Rightarrow> repo list" where
  "two_pages page = (if page = 1 then [forked] else if page = 2 then [original] else [])"

definition two_branches :: "branch_info list" where
  "two_branches = [\<lparr>branch_name = ''main''\<rparr>, \<lparr>branch_name = ''dev''\<rparr>]"

definition no_totals :: totals where
  "no_totals = \<lparr>totalSuccessfulRepos = 0, totalFailedRepos = 0,
                 totalSuccessfulBranches = 0, totalFailedBranches = 0\<rparr>"

section \<open>Auxiliary facts\<close>

lemma existsSync_delay [simp]: "existsSync p (delay ms w) = existsSync p w"
  by (simp add: existsSync_def delay_def)

lemma fs_delay [simp]: "fs (delay ms w) = fs w"
  by (simp add: delay_def)

lemma tick_delay [simp]: "tick (delay ms w) = tick w"
  by (simp add: delay_def)

lemma not_existsSync_rmSync [simp]: "\<not> existsSync p (rmSync p w)"
  by (simp add: existsSync_def rmSync_def)

subsection \<open>The listing loop on an endpoint that serves every page\<close>

lemma fetch_pages_from:
  assumes served: "\<And>t p. repos_api env t username p = Ok (pages p)"
    and empty: "pages k = []"
    and nonempty: "\<And>p. page \<le> p \<Longrightarrow> p < k \<Longrightarrow> pages p \<noteq> []"
    and le: "page \<le> k"
  shows "fetchAllRepos_loop env username repos page 0 w =
           Some (Returned (repos @ concat (map pages [page..<k])),
                 w\<lparr>requests := requests w @ map (ReposPage username) [page..<Suc k],
                   tick := tick w + (Suc k - page)\<rparr>)"
  using nonempty le
proof (induction "k - page" arbitrary: page repos w)
  case 0
  then have "page = k" by simp
  then show ?case
    by (subst fetchAllRepos_loop.simps) (simp add: maxRetries_def get_repos_def served empty)
next
  case (Suc n)
  then have lt: "page < k" and n: "n = k - (page + 1)" by simp_all
  have ne: "pages page \<noteq> []" using Suc.prems(1) lt by simp
  have IH: "fetchAllRepos_loop env username repos' (page + 1) 0 w' =
           Some (Returned (repos' @ concat (map pages [page + 1..<k])),
                 w'\<lparr>requests := requests w' @ map (ReposPage username) [page + 1..<Suc k],
                   tick := tick w' + (Suc k - (page + 1))\<rparr>)" for repos' w'
    using Suc.hyps(1)[OF n, of repos' w'] Suc.prems(1) lt by simp
  have up: "[page..<k] = page # [page + 1..<k]" "[page..<Suc k] = page # [page + 1..<Suc k]"
    using lt by (simp_all add: upt_conv_Cons)
  let ?w1 = "w\<lparr>requests := requests w @ [ReposPage username page], tick := tick w + 1\<rparr>"
  have step: "fetchAllRepos_loop env username repos page 0 w =
              fetchAllRepos_loop env username (repos @ pages page) (page + 1) 0 ?w1"
    by (subst fetchAllRepos_loop.simps) (simp add: maxRetries_def get_repos_def served ne)
  have tk: "Suc (tick w + (k - page)) = tick w + (Suc k - page)"
    using lt by simp
  show ?case
    unfolding step IH up using tk by (simp del: upt_Suc)
qed

subsection \<open>The retry loop of the branch listing\<close>

lemma fetchBranches_loop_Ok:
  assumes "retryCount < maxRetries" "branches_api env (tick w) username repoName = Ok data"
  shows "fetchBranches_loop env username repoName retryCount w =
     (map branch_name data, w\<lparr>requests := requests w @ [Branches username repoName], tick := tick w + 1\<rparr>)"
  using assms by (subst fetchBranches_loop.simps) (simp add: get_branches_def)

lemma fetchBranches_loop_403:
  assumes "retryCount < maxRetries" "branches_api env (tick w) username repoName = Failed (Some 403)"
  shows "fetchBranches_loop env username repoName retryCount w =
     ([], w\<lparr>requests := requests w @ [Branches username repoName], tick := tick w + 1\<rparr>)"
  using assms by (subst fetchBranches_loop.simps) (simp add: get_branches_def)

lemma fetchBranches_loop_retry:
  assumes "retryCount + 1 < maxRetries" "other_error (branches_api env (tick w) username repoName)"
  shows "fetchBranches_loop env username repoName retryCount w =
     fetchBranches_loop env username repoName (retryCount + 1)
       (delay (1000 * (retryCount + 1))
          (w\<lparr>requests := requests w @ [Branches username repoName], tick := tick w + 1\<rparr>))"
  using assms
  by (subst fetchBranches_loop.simps)
     (simp add: get_branches_def other_error_def split: response.splits)

lemma fetchBranches_loop_last:
  assumes "retryCount + 1 = maxRetries" "other_error (branches_api env (tick w) username repoName)"
  shows "fetchBranches_loop env username repoName retryCount w =
     ([], w\<lparr>requests := requests w @ [Branches username repoName], tick := tick w + 1\<rparr>)"
  using assms
  by (subst fetchBranches_loop.simps)
     (simp add: get_branches_def other_error_def split: response.splits)

lemma fetchBranches_loop_skip:
  assumes "\<forall>i < k. other_error (branches_api env (tick w + i) username repoName)"
    and "retryCount + k < maxRetries"
  shows "\<exists>w'. fetchBranches_loop env username repoName retryCount w =
               fetchBranches_loop env username repoName (retryCount + k) w'
             \<and> tick w' = tick w + k
             \<and> requests w' = requests w @ replicate k (Branches username repoName)
             \<and> fs w' = fs w \<and> clones w' = clones w"
  using assms
proof (induction k arbitrary: retryCount w)
  case 0
  show ?case by (rule exI [of _ w]) simp
next
  case (Suc k)
  let ?w1 = "delay (1000 * (retryCount + 1))
          (w\<lparr>requests := requests w @ [Branches username repoName], tick := tick w + 1\<rparr>)"
  have first: "other_error (branches_api env (tick w) username repoName)"
    using Suc.prems(1) by force
  have rest: "\<forall>i < k. other_error (branches_api env (tick ?w1 + i) username repoName)"
  proof (intro allI impI)
    fix i assume "i < k"
    then have "Suc i < Suc k" by simp
    then have "other_error (branches_api env (tick w + Suc i) username repoName)"
      using Suc.prems(1) by blast
    then show "other_error (branches_api env (tick ?w1 + i) username repoName)"
      by (simp add: delay_def)
  qed
  have step: "fetchBranches_loop env username repoName retryCount w =
              fetchBranches_loop env username repoName (retryCount + 1) ?w1"
    using fetchBranches_loop_retry [OF _ first] Suc.prems(2) by simp
  obtain w' where w': "fetchBranches_loop env username repoName (retryCount + 1) ?w1 =
               fetchBranches_loop env username repoName (retryCount + 1 + k) w'"
      "tick w' = tick ?w1 + k"
      "requests w' = requests ?w1 @ replicate k (Branches username repoName)"
      "fs w' = fs ?w1" "clones w' = clones ?w1"
    using Suc.IH [OF rest, of "retryCount + 1"] Suc.prems(2) by auto
  show ?case
    apply (rule exI [of _ w'])
    using step w' by (simp add: delay_def replicate_app_Cons_same)
qed

lemma fetchBranches_skip:
  assumes "\<forall>i < k. other_error (branches_api env (tick w + i) username repoName)"
    and "k < maxRetries"
  shows "\<exists>w'. fetchBranches env username repoName w =
               fetchBranches_loop env username repoName k w' \<and> tick w' = tick w + k"
  using fetchBranches_loop_skip [OF assms(1), of 0] assms(2)
  by (auto simp: fetchBranches_def)

subsection \<open>One attempt and all attempts of a branch clone\<close>

lemma cloneBranch_try_exists:
  "existsSync branchPath w \<Longrightarrow> cloneBranch_try env username repo branch branchPath w = Inl (True, w)"
  by (simp add: cloneBranch_try_def)

lemma cloneBranch_try_empty:
  assumes "\<not> existsSync branchPath w"
    and "clone_api env (tick w) (cloneUrl env username repo) branchPath
           [''--branch'', branch, ''--single-branch'', ''--depth'', ''1''] = CloneOk items"
    and "filter (\<lambda>item. item \<noteq> ''.git'') items = []"
  shows "cloneBranch_try env username repo branch branchPath w =
           Inl (False, rmSync branchPath (snd (git_clone env (cloneUrl env username repo) branchPath
              [''--branch'', branch, ''--single-branch'', ''--depth'', ''1''] w)))"
  using assms
  by (simp add: cloneBranch_try_def git_clone_def readdirSync_def write_dir_def Let_def)

lemma cloneBranch_try_True:
  assumes "cloneBranch_try env username repo branch branchPath w = Inl (True, w')"
  shows "existsSync branchPath w \<and> w' = w \<or>
         \<not> existsSync branchPath w \<and> (\<exists>items. fs w' branchPath = Some items \<and> filter (\<lambda>item. item \<noteq> ''.git'') items \<noteq> [])"
  using assms
  by (auto simp: cloneBranch_try_def git_clone_def readdirSync_def write_dir_def Let_def update_submodules_def
      split: if_splits clone_result.splits option.splits prod.splits)

lemma cloneBranch_loop_True:
  assumes "cloneBranch_loop env username repo branch branchPath retries attempt w = (True, w')"
  shows "existsSync branchPath w \<and> w' = w \<or>
         (\<exists>items. fs w' branchPath = Some items \<and> filter (\<lambda>item. item \<noteq> ''.git'') items \<noteq> [])"
  using assms
proof (induction env username repo branch branchPath retries attempt w rule: cloneBranch_loop.induct)
  case (1 env username repo branch branchPath retries attempt w)
  show ?case
  proof (cases "cloneBranch_try env username repo branch branchPath w")
    case (Inl r)
    then have "r = (True, w')" using "1.prems"
      by (subst (asm) cloneBranch_loop.simps) (simp split: if_splits)
    then show ?thesis using cloneBranch_try_True Inl by blast
  next
    case (Inr w1)
    let ?w2 = "if existsSync branchPath w1 then rmSync branchPath w1 else w1"
    have le: "attempt \<le> retries" and lt: "attempt < retries"
      and rec: "cloneBranch_loop env username repo branch branchPath retries (attempt + 1)
             (delay (2 ^ (attempt - 1) * 500) ?w2) = (True, w')"
      using "1.prems" Inr
      by (subst (asm) cloneBranch_loop.simps, simp add: Let_def split: if_splits)+
    have nex: "\<not> existsSync branchPath (delay (2 ^ (attempt - 1) * 500) ?w2)"
      by simp
    show ?thesis
      using "1.IH" [OF le Inr refl lt rec] nex by blast
  qed
qed

subsection \<open>The counters of the branch loop\<close>

lemma cloneRepo_loop_counts:
  "cloneRepo_loop env username repo repoPath branches successful failed w = (s, f, w') \<Longrightarrow>
     s = successful + length (filter id (branch_results env username repo repoPath branches w)) \<and>
     f = failed + length (filter Not (branch_results env username repo repoPath branches w))"
proof (induction branches arbitrary: successful failed w)
  case Nil
  then show ?case by simp
next
  case (Cons branch rest)
  obtain ok w1 where cb:
    "cloneBranch env username repo branch (path_join repoPath (branchDirName branch)) 3 w = (ok, w1)"
    by (cases "cloneBranch env username repo branch (path_join repoPath (branchDirName branch)) 3 w")
  show ?case
  proof (cases ok)
    case True
    then have "cloneRepo_loop env username repo repoPath rest (successful + 1) failed
                 (delay 500 w1) = (s, f, w')"
      using Cons.prems cb by simp
    from Cons.IH [OF this] show ?thesis using cb True by simp
  next
    case False
    then have "cloneRepo_loop env username repo repoPath rest successful (failed + 1)
                 (delay 500 w1) = (s, f, w')"
      using Cons.prems cb by simp
    from Cons.IH [OF this] show ?thesis using cb False by simp
  qed
qed

lemma length_filter_id_Not:
  "length (filter id bs) + length (filter Not bs) = length bs"
  by (induction bs) auto

lemma length_branch_results:
  "length (branch_results env username repo repoPath branches w) = length branches"
  by (induction branches arbitrary: w) (auto split: prod.splits)

lemma cloneRepo_result:
  assumes "fetchBranches env username (name repo)
             (if \<not> existsSync (path_join outputDir (name repo)) w
              then mkdirSync (path_join outputDir (name repo)) w else w) = (branches, w1)"
    and "branches \<noteq> []"
    and "cloneRepo_loop env username repo (path_join outputDir (name repo)) branches 0 0 w1 = (s, f, w2)"
  shows "cloneRepo env username repo outputDir w =
           (\<lparr>success = (s > 0), successfulBranches = s, failedBranches = f\<rparr>,
            if s = 0 then rmSync (path_join outputDir (name repo)) w2 else w2)"
  using assms by (simp add: cloneRepo_def Let_def)

section \<open>Claims\<close>

text \<open>
  C1. The repositories that \<^verbatim>\<open>fetchAllRepos\<close> returns are meant to hold no fork. Both
  of its returns hand back the accumulated list as it is, because the filter of line 48
  stands after a loop that only returns: a fork listed on page 1 is returned when page 2
  is empty, and also when page 2 fails three times.
\<close>

theorem fetchAllRepos_returns_forks:
  "map_option fst
     (fetchAllRepos
        (scripted (\<lambda>t page. if page = 1 then Ok [forked, original] else Ok [])
           (\<lambda>t. Ok []) (\<lambda>t. CloneOk []))
        ''octocat'' (on_disk []))
     = Some (Returned [forked, original])
   \<and> map_option fst
     (fetchAllRepos
        (scripted (\<lambda>t page. if page = 1 then Ok [forked, original] else Failed (Some 500))
           (\<lambda>t. Ok []) (\<lambda>t. CloneOk []))
        ''octocat'' (on_disk []))
     = Some (Returned [forked, original])
   \<and> fork forked"
  by (simp add: fetchAllRepos_def fetchAllRepos_loop.simps scripted_def on_disk_def
        get_repos_def maxRetries_def delay_def forked_def)

text \<open>
  C2. The directory segment of a branch is meant to be the branch name with every slash
  turned into a hyphen. \<^verbatim>\<open>replace\<close> with a string pattern stops after the first
  match: a name with two slashes keeps its second one.
\<close>

theorem branchDirName_two_slashes:
  "branchDirName ''feature/login/v2'' = ''feature-login/v2''
   \<and> CHR ''/'' \<in> set (branchDirName ''feature/login/v2'')
   \<and> branchDirName ''feature/login/v2''
       \<noteq> map (\<lambda>c. if c = CHR ''/'' then CHR ''-'' else c) ''feature/login/v2''"
  by (simp add: branchDirName_def)

text \<open>
  C3, as claimed: when \<^verbatim>\<open>outputDir/repo.name\<close> exists, \<^verbatim>\<open>cloneRootRepo\<close> makes no
  clone. It does: with the directory of \<open>original\<close> on disk, the call is made, \<^verbatim>\<open>git\<close>
  refuses the directory, and the repository is reported as failed.
\<close>

theorem cloneRootRepo_existing_target_counterexample:
  "existsSync (path_join ''out'' (name original)) (on_disk [(''out/written'', [''README.md''])])
   \<and> cloneRootRepo
        (scripted (\<lambda>t page. Ok []) (\<lambda>t. Ok [])
           (\<lambda>t. CloneFailed ''destination path already exists and is not an empty directory'' None))
        ''octocat'' original ''out'' (on_disk [(''out/written'', [''README.md''])])
     = (False,
        (on_disk [(''out/written'', [''README.md''])])
          \<lparr>clones := [(''https://github.com/octocat/written.git'', ''out/written'',
                       [''--depth'', ''1''])],
            tick := 1\<rparr>)"
  by (simp add: cloneRootRepo_def scripted_def on_disk_def original_def
        git_clone_def cloneUrl_def existsSync_def path_join_def Let_def)

text \<open>
  C3, amended: whether or not \<^verbatim>\<open>outputDir/repo.name\<close> exists, \<^verbatim>\<open>cloneRootRepo\<close>
  makes exactly one shallow clone into it, and it reports success exactly when that clone
  does not throw. The existence test only decides whether the directory is created
  first: the world afterwards is the one that this clone leaves when it starts from the
  given world, if the path exists, and from the world with the directory made, if not.
\<close>

theorem cloneRootRepo_always_clones:
  "clones (snd (cloneRootRepo env username repo outputDir w)) =
     clones w @ [(cloneUrl env username repo, path_join outputDir (name repo),
                  [''--depth'', ''1''])]
   \<and> fst (cloneRootRepo env username repo outputDir w) =
       (case clone_api env (tick w) (cloneUrl env username repo)
               (path_join outputDir (name repo)) [''--depth'', ''1''] of
          CloneOk written \<Rightarrow> True
        | CloneFailed msg partial \<Rightarrow> False)
   \<and> snd (cloneRootRepo env username repo outputDir w) =
       snd (git_clone env (cloneUrl env username repo) (path_join outputDir (name repo))
              [''--depth'', ''1'']
              (if existsSync (path_join outputDir (name repo)) w then w
               else mkdirSync (path_join outputDir (name repo)) w))"
proof (intro conjI)
  show "clones (snd (cloneRootRepo env username repo outputDir w)) =
     clones w @ [(cloneUrl env username repo, path_join outputDir (name repo),
                  [''--depth'', ''1''])]"
    by (simp add: cloneRootRepo_def git_clone_def mkdirSync_def write_dir_def Let_def
          split: clone_result.splits option.splits)
  show "fst (cloneRootRepo env username repo outputDir w) =
       (case clone_api env (tick w) (cloneUrl env username repo)
               (path_join outputDir (name repo)) [''--depth'', ''1''] of
          CloneOk written \<Rightarrow> True
        | CloneFailed msg partial \<Rightarrow> False)"
    by (simp add: cloneRootRepo_def git_clone_def mkdirSync_def write_dir_def Let_def
          split: clone_result.splits option.splits)
  show "snd (cloneRootRepo env username repo outputDir w) =
       snd (git_clone env (cloneUrl env username repo) (path_join outputDir (name repo))
              [''--depth'', ''1'']
              (if existsSync (path_join outputDir (name repo)) w then w
               else mkdirSync (path_join outputDir (name repo)) w))"
    by (cases "existsSync (path_join outputDir (name repo)) w")
       (simp_all add: cloneRootRepo_def Let_def split: prod.splits clone_result.splits)
qed

text \<open>
  C4, as claimed: the branch counts of every repository in branch mode are added to the
  totals of the run, whatever its \<^verbatim>\<open>success\<close> flag. They are not: a repository with
  two branches that both fail to clone returns \<^verbatim>\<open>failedBranches = 2\<close> with
  \<^verbatim>\<open>success = false\<close>, and the total of failed branches stays 0.
\<close>

theorem main_step_failed_repo_counterexample:
  "fst (cloneRepo
          (scripted (\<lambda>t page. Ok []) (\<lambda>t. Ok two_branches) (\<lambda>t. CloneFailed ''timeout'' None))
          ''octocat'' original ''out'' (on_disk []))
     = \<lparr>success = False, successfulBranches = 0, failedBranches = 2\<rparr>
   \<and> totalFailedBranches
       (fst (main_step
          (scripted (\<lambda>t page. Ok []) (\<lambda>t. Ok two_branches) (\<lambda>t. CloneFailed ''timeout'' None))
          ''octocat'' ''out'' True original (no_totals, on_disk [])))
     = 0"
  by (simp add: main_step_def no_totals_def cloneRepo_def scripted_def on_disk_def
        original_def two_branches_def fetchBranches_def fetchBranches_loop.simps
        get_branches_def maxRetries_def cloneBranch_def cloneBranch_loop.simps
        cloneBranch_try_def git_clone_def cloneUrl_def existsSync_def mkdirSync_def
        rmSync_def path_join_def below_def delay_def branchDirName_def Let_def)

text \<open>
  C4, amended: in branch mode the branch counts of a repository are added to the totals
  of the run when its \<^verbatim>\<open>success\<close> flag is true (lines 290 to 293); when the flag is
  false the branch totals stay as they were, and only the count of failed repositories
  grows.
\<close>

theorem main_step_branch_totals:
  "fst (main_step env username outputDir True repo (t, w)) =
     (if success (fst (cloneRepo env username repo outputDir w))
      then t\<lparr>totalSuccessfulRepos := totalSuccessfulRepos t + 1,
             totalSuccessfulBranches :=
               totalSuccessfulBranches t
                 + successfulBranches (fst (cloneRepo env username repo outputDir w)),
             totalFailedBranches :=
               totalFailedBranches t
                 + failedBranches (fst (cloneRepo env username repo outputDir w))\<rparr>
      else t\<lparr>totalFailedRepos := totalFailedRepos t + 1\<rparr>)"
  by (simp add: main_step_def split: prod.splits)

text \<open>
  C5. When the endpoint serves every page it is asked for, and page \<open>k\<close> is its first
  empty page, \<^verbatim>\<open>fetchAllRepos\<close> returns the contents of pages 1 to \<open>k - 1\<close>
  concatenated in page order, having asked for pages 1 to \<open>k\<close> in this order and for
  nothing else.
\<close>

theorem fetchAllRepos_concatenates_pages:
  assumes "\<forall>t page. repos_api env t username page = Ok (pages page)"
    and "0 < k"
    and "pages k = []"
    and "\<forall>page. 0 < page \<and> page < k \<longrightarrow> pages page \<noteq> []"
  shows "fetchAllRepos env username w =
           Some (Returned (concat (map pages [1..<k])),
                 w\<lparr>requests := requests w @ map (ReposPage username) [1..<Suc k],
                   tick := tick w + k\<rparr>)"
proof -
  have "fetchAllRepos_loop env username [] 1 0 w =
           Some (Returned ([] @ concat (map pages [1..<k])),
                 w\<lparr>requests := requests w @ map (ReposPage username) [1..<Suc k],
                   tick := tick w + (Suc k - 1)\<rparr>)"
    using assms by (intro fetch_pages_from) auto
  then show ?thesis by (simp add: fetchAllRepos_def)
qed

theorem fetchAllRepos_concatenates_pages_witness:
  "(\<forall>t page. repos_api (scripted (\<lambda>t page. Ok (two_pages page)) (\<lambda>t. Ok []) (\<lambda>t. CloneOk []))
                t ''octocat'' page = Ok (two_pages page))
   \<and> two_pages 1 \<noteq> [] \<and> two_pages 2 \<noteq> [] \<and> two_pages 3 = []
   \<and> fetchAllRepos (scripted (\<lambda>t page. Ok (two_pages page)) (\<lambda>t. Ok []) (\<lambda>t. CloneOk []))
        ''octocat'' (on_disk [])
     = Some (Returned [forked, original],
             (on_disk [])\<lparr>requests := [ReposPage ''octocat'' 1, ReposPage ''octocat'' 2,
                                       ReposPage ''octocat'' 3],
                           tick := 3\<rparr>)"
proof -
  let ?env = "scripted (\<lambda>t page. Ok (two_pages page)) (\<lambda>t. Ok []) (\<lambda>t. CloneOk [])"
  have served: "\<forall>t page. repos_api ?env t ''octocat'' page = Ok (two_pages page)"
    by (simp add: scripted_def)
  have last: "two_pages 3 = []"
    by (simp add: two_pages_def)
  have before: "\<forall>page. 0 < page \<and> page < 3 \<longrightarrow> two_pages page \<noteq> []"
    by (auto simp: two_pages_def)
  have upt: "[1..<3] = [1, 2::nat]" "[1..<Suc 3] = [1, 2, 3::nat]"
    by (simp_all add: upt_rec)
  have "fetchAllRepos ?env ''octocat'' (on_disk []) =
          Some (Returned (concat (map two_pages [1..<3])),
                (on_disk [])\<lparr>requests := requests (on_disk [])
                                 @ map (ReposPage ''octocat'') [1..<Suc 3],
                              tick := tick (on_disk []) + 3\<rparr>)"
    using fetchAllRepos_concatenates_pages [OF served _ last before, of "on_disk []"] by simp
  then show ?thesis
    unfolding upt using served by (simp add: two_pages_def on_disk_def)
qed

text \<open>
  C6. \<^verbatim>\<open>fetchBranches\<close> is a total function into lists of names: no error leaves it.
  Counting its requests from 0, with \<open>answer i\<close> the answer to request \<open>i\<close>: a rate-limit
  answer (status 403) to one of the three requests, after other errors only, ends the
  call at once with the empty list; three errors give the empty list; a successful
  answer to one of the three requests, after other errors only, gives the branch names
  of that answer.
\<close>

theorem fetchBranches_never_raises:
  fixes env username repoName w
  defines "answer \<equiv> \<lambda>i. branches_api env (tick w + i) username repoName"
  shows "(\<forall>k < 3. (\<forall>i < k. other_error (answer i)) \<and> answer k = Failed (Some 403) \<longrightarrow>
            fst (fetchBranches env username repoName w) = [] \<and>
            tick (snd (fetchBranches env username repoName w)) = tick w + k + 1)
       \<and> ((\<forall>i < 3. other_error (answer i)) \<longrightarrow>
            fst (fetchBranches env username repoName w) = [] \<and>
            tick (snd (fetchBranches env username repoName w)) = tick w + 3)
       \<and> (\<forall>k < 3. \<forall>data. (\<forall>i < k. other_error (answer i)) \<and> answer k = Ok data \<longrightarrow>
            fst (fetchBranches env username repoName w) = map branch_name data \<and>
            tick (snd (fetchBranches env username repoName w)) = tick w + k + 1)"
proof (intro conjI allI impI)
  fix k :: nat
  assume k: "k < 3" and h: "(\<forall>i < k. other_error (answer i)) \<and> answer k = Failed (Some 403)"
  obtain w' where w': "fetchBranches env username repoName w =
                       fetchBranches_loop env username repoName k w'" "tick w' = tick w + k"
  proof -
    have "\<forall>i < k. other_error (branches_api env (tick w + i) username repoName)"
      using h by (simp add: answer_def)
    moreover have "k < maxRetries" using k by (simp add: maxRetries_def)
    ultimately show ?thesis
      using fetchBranches_skip [of k env w username repoName] that by blast
  qed
  have "fetchBranches_loop env username repoName k w' =
     ([], w'\<lparr>requests := requests w' @ [Branches username repoName], tick := tick w' + 1\<rparr>)"
    using fetchBranches_loop_403 [of k env w' username repoName] h k w'(2)
    by (simp add: answer_def maxRetries_def)
  then show "fst (fetchBranches env username repoName w) = []"
    and "tick (snd (fetchBranches env username repoName w)) = tick w + k + 1"
    using w' by simp_all
next
  assume h: "\<forall>i < 3. other_error (answer i)"
  obtain w' where w': "fetchBranches env username repoName w =
                       fetchBranches_loop env username repoName 2 w'" "tick w' = tick w + 2"
  proof -
    have "\<forall>i < 2. other_error (branches_api env (tick w + i) username repoName)"
      using h by (simp add: answer_def)
    moreover have "2 < maxRetries" by (simp add: maxRetries_def)
    ultimately show ?thesis
      using fetchBranches_skip [of 2 env w username repoName] that by blast
  qed
  have "fetchBranches_loop env username repoName 2 w' =
     ([], w'\<lparr>requests := requests w' @ [Branches username repoName], tick := tick w' + 1\<rparr>)"
  proof -
    have "other_error (answer 2)" using h by simp
    then have "other_error (branches_api env (tick w') username repoName)"
      using w'(2) by (simp add: answer_def)
    then show ?thesis
      by (rule fetchBranches_loop_last [rotated]) (simp add: maxRetries_def)
  qed
  then show "fst (fetchBranches env username repoName w) = []"
    and "tick (snd (fetchBranches env username repoName w)) = tick w + 3"
    using w' by simp_all
next
  fix k :: nat and data
  assume k: "k < 3" and h: "(\<forall>i < k. other_error (answer i)) \<and> answer k = Ok data"
  obtain w' where w': "fetchBranches env username repoName w =
                       fetchBranches_loop env username repoName k w'" "tick w' = tick w + k"
  proof -
    have "\<forall>i < k. other_error (branches_api env (tick w + i) username repoName)"
      using h by (simp add: answer_def)
    moreover have "k < maxRetries" using k by (simp add: maxRetries_def)
    ultimately show ?thesis
      using fetchBranches_skip [of k env w username repoName] that by blast
  qed
  have "fetchBranches_loop env username repoName k w' =
     (map branch_name data,
      w'\<lparr>requests := requests w' @ [Branches username repoName], tick := tick w' + 1\<rparr>)"
    using fetchBranches_loop_Ok [of k env w' username repoName data] h k w'(2)
    by (simp add: answer_def maxRetries_def)
  then show "fst (fetchBranches env username repoName w) = map branch_name data"
    and "tick (snd (fetchBranches env username repoName w)) = tick w + k + 1"
    using w' by simp_all
qed

theorem fetchBranches_never_raises_witness:
  "fetchBranches
     (scripted (\<lambda>t page. Ok []) (\<lambda>t. if t = 0 then Failed (Some 500) else Failed (Some 403))
        (\<lambda>t. CloneOk []))
     ''octocat'' ''written'' (on_disk []) =
     ([], (on_disk [])\<lparr>requests := [Branches ''octocat'' ''written'', Branches ''octocat'' ''written''],
                       tick := 2, slept := 1000\<rparr>)
   \<and> fst (fetchBranches
       (scripted (\<lambda>t page. Ok []) (\<lambda>t. Failed None) (\<lambda>t. CloneOk []))
       ''octocat'' ''written'' (on_disk [])) = []
   \<and> tick (snd (fetchBranches
       (scripted (\<lambda>t page. Ok []) (\<lambda>t. Failed None) (\<lambda>t. CloneOk []))
       ''octocat'' ''written'' (on_disk []))) = 3
   \<and> fst (fetchBranches
       (scripted (\<lambda>t page. Ok []) (\<lambda>t. if t = 0 then Failed (Some 502) else Ok two_branches)
          (\<lambda>t. CloneOk []))
       ''octocat'' ''written'' (on_disk [])) = [''main'', ''dev'']"
proof -
  let ?limited = "scripted (\<lambda>t page. Ok [])
      (\<lambda>t. if t = 0 then Failed (Some 500) else Failed (Some 403)) (\<lambda>t. CloneOk [])"
  let ?down = "scripted (\<lambda>t page. Ok []) (\<lambda>t. Failed None) (\<lambda>t. CloneOk [])"
  let ?late = "scripted (\<lambda>t page. Ok [])
      (\<lambda>t. if t = 0 then Failed (Some 502) else Ok two_branches) (\<lambda>t. CloneOk [])"
  have "fst (fetchBranches ?limited ''octocat'' ''written'' (on_disk [])) = []
      \<and> tick (snd (fetchBranches ?limited ''octocat'' ''written'' (on_disk [])))
          = tick (on_disk []) + 1 + 1"
    by (rule fetchBranches_never_raises [THEN conjunct1, rule_format, of 1])
       (simp_all add: scripted_def on_disk_def other_error_def)
  moreover have "fetchBranches ?limited ''octocat'' ''written'' (on_disk []) =
     ([], (on_disk [])\<lparr>requests := [Branches ''octocat'' ''written'', Branches ''octocat'' ''written''],
                       tick := 2, slept := 1000\<rparr>)"
    by (simp add: fetchBranches_def fetchBranches_loop.simps get_branches_def maxRetries_def
          scripted_def on_disk_def delay_def)
  moreover have "fst (fetchBranches ?down ''octocat'' ''written'' (on_disk [])) = []
      \<and> tick (snd (fetchBranches ?down ''octocat'' ''written'' (on_disk [])))
          = tick (on_disk []) + 3"
    by (rule fetchBranches_never_raises [THEN conjunct2, THEN conjunct1, rule_format])
       (simp_all add: scripted_def on_disk_def other_error_def)
  moreover have "fst (fetchBranches ?late ''octocat'' ''written'' (on_disk []))
          = map branch_name two_branches
      \<and> tick (snd (fetchBranches ?late ''octocat'' ''written'' (on_disk [])))
          = tick (on_disk []) + 1 + 1"
    by (rule fetchBranches_never_raises [THEN conjunct2, THEN conjunct2, rule_format, of 1])
       (simp_all add: scripted_def on_disk_def other_error_def)
  ultimately show ?thesis by (simp add: two_branches_def on_disk_def)
qed

text \<open>
  C7. When the target path exists, \<^verbatim>\<open>cloneBranch\<close> returns \<^verbatim>\<open>true\<close> and leaves the
  world as it found it: no \<^verbatim>\<open>git.clone\<close>, no change on disk. And after a call that
  returned \<^verbatim>\<open>true\<close> the target exists, so a second call with the same arguments is
  such a no-op.
\<close>

theorem cloneBranch_existing_target:
  "(0 < retries \<and> existsSync branchPath w
      \<longrightarrow> cloneBranch env username repo branch branchPath retries w = (True, w))
   \<and> (0 < retries \<and> fst (cloneBranch env username repo branch branchPath retries w)
      \<longrightarrow> cloneBranch env username repo branch branchPath retries
            (snd (cloneBranch env username repo branch branchPath retries w))
          = (True, snd (cloneBranch env username repo branch branchPath retries w)))"
proof -
  have skip: "cloneBranch env username repo branch branchPath retries v = (True, v)"
    if "0 < retries" and "existsSync branchPath v" for v
    unfolding cloneBranch_def using that
    by (subst cloneBranch_loop.simps) (simp add: cloneBranch_try_exists)
  have populated: "existsSync branchPath (snd (cloneBranch env username repo branch branchPath retries w))"
    if "fst (cloneBranch env username repo branch branchPath retries w)"
  proof -
    have "cloneBranch_loop env username repo branch branchPath retries 1 w =
            (True, snd (cloneBranch env username repo branch branchPath retries w))"
      using that by (simp add: cloneBranch_def prod_eq_iff)
    from cloneBranch_loop_True [OF this] show ?thesis
      by (auto simp: existsSync_def)
  qed
  show ?thesis
    using skip populated by blast
qed

theorem cloneBranch_existing_target_witness:
  "existsSync ''out/written/main'' (on_disk [(''out/written/main'', [''.git'', ''README.md''])])
   \<and> cloneBranch (scripted (\<lambda>t page. Ok []) (\<lambda>t. Ok []) (\<lambda>t. CloneFailed ''offline'' None))
       ''octocat'' original ''main'' ''out/written/main'' 3
       (on_disk [(''out/written/main'', [''.git'', ''README.md''])])
     = (True, on_disk [(''out/written/main'', [''.git'', ''README.md''])])
   \<and> fst (cloneBranch
            (scripted (\<lambda>t page. Ok []) (\<lambda>t. Ok []) (\<lambda>t. CloneOk [''.git'', ''README.md'']))
            ''octocat'' original ''main'' ''out/written/main'' 3 (on_disk []))
   \<and> cloneBranch
         (scripted (\<lambda>t page. Ok []) (\<lambda>t. Ok []) (\<lambda>t. CloneOk [''.git'', ''README.md'']))
         ''octocat'' original ''main'' ''out/written/main'' 3
         (snd (cloneBranch
            (scripted (\<lambda>t page. Ok []) (\<lambda>t. Ok []) (\<lambda>t. CloneOk [''.git'', ''README.md'']))
            ''octocat'' original ''main'' ''out/written/main'' 3 (on_disk [])))
     = (True, snd (cloneBranch
            (scripted (\<lambda>t page. Ok []) (\<lambda>t. Ok []) (\<lambda>t. CloneOk [''.git'', ''README.md'']))
            ''octocat'' original ''main'' ''out/written/main'' 3 (on_disk [])))"
proof -
  let ?full = "scripted (\<lambda>t page. Ok []) (\<lambda>t. Ok []) (\<lambda>t. CloneOk [''.git'', ''README.md''])"
  have there: "existsSync ''out/written/main''
                 (on_disk [(''out/written/main'', [''.git'', ''README.md''])])"
    by (simp add: existsSync_def on_disk_def)
  have cloned: "fst (cloneBranch ?full ''octocat'' original ''main'' ''out/written/main'' 3
                       (on_disk []))"
    by (simp add: cloneBranch_def cloneBranch_loop.simps cloneBranch_try_def git_clone_def
          write_dir_def readdirSync_def existsSync_def on_disk_def scripted_def Let_def)
  have three: "0 < (3::nat)" by simp
  show ?thesis
    using there cloned three
      cloneBranch_existing_target [THEN conjunct1, rule_format, OF conjI [OF three there]]
      cloneBranch_existing_target [THEN conjunct2, rule_format, OF conjI [OF three cloned]]
    by blast
qed

text \<open>
  C8. An attempt of \<^verbatim>\<open>cloneBranch\<close> (the first one is \<open>attempt = 1\<close>) whose clone
  writes a directory with no entry but \<^verbatim>\<open>.git\<close> ends the call: the result is
  \<^verbatim>\<open>false\<close> and the directory is gone. And whenever \<^verbatim>\<open>cloneBranch\<close> returns
  \<^verbatim>\<open>true\<close> for a target that was not there before, the target holds an entry other
  than \<^verbatim>\<open>.git\<close>: an empty branch is never a success.
\<close>

theorem cloneBranch_empty_branch:
  "(attempt \<le> retries \<and> \<not> existsSync branchPath w
      \<and> clone_api env (tick w) (cloneUrl env username repo) branchPath
            [''--branch'', branch, ''--single-branch'', ''--depth'', ''1''] = CloneOk items
      \<and> filter (\<lambda>item. item \<noteq> ''.git'') items = []
    \<longrightarrow> fst (cloneBranch_loop env username repo branch branchPath retries attempt w) = False
        \<and> \<not> existsSync branchPath
              (snd (cloneBranch_loop env username repo branch branchPath retries attempt w)))
   \<and> (\<not> existsSync branchPath w
      \<and> fst (cloneBranch env username repo branch branchPath retries w)
    \<longrightarrow> (\<exists>found. fs (snd (cloneBranch env username repo branch branchPath retries w)) branchPath
                    = Some found
                \<and> filter (\<lambda>item. item \<noteq> ''.git'') found \<noteq> []))"
proof (intro conjI impI)
  assume h: "attempt \<le> retries \<and> \<not> existsSync branchPath w
      \<and> clone_api env (tick w) (cloneUrl env username repo) branchPath
            [''--branch'', branch, ''--single-branch'', ''--depth'', ''1''] = CloneOk items
      \<and> filter (\<lambda>item. item \<noteq> ''.git'') items = []"
  let ?w1 = "snd (git_clone env (cloneUrl env username repo) branchPath
               [''--branch'', branch, ''--single-branch'', ''--depth'', ''1''] w)"
  from h have le: "attempt \<le> retries" and absent: "\<not> existsSync branchPath w"
    and written: "clone_api env (tick w) (cloneUrl env username repo) branchPath
            [''--branch'', branch, ''--single-branch'', ''--depth'', ''1''] = CloneOk items"
    and bare: "filter (\<lambda>item. item \<noteq> ''.git'') items = []"
    by blast+
  have "cloneBranch_try env username repo branch branchPath w = Inl (False, rmSync branchPath ?w1)"
    by (rule cloneBranch_try_empty [OF absent written bare])
  then have "cloneBranch_loop env username repo branch branchPath retries attempt w =
               (False, rmSync branchPath ?w1)"
    using le by (subst cloneBranch_loop.simps) simp
  then show "fst (cloneBranch_loop env username repo branch branchPath retries attempt w) = False"
    and "\<not> existsSync branchPath
           (snd (cloneBranch_loop env username repo branch branchPath retries attempt w))"
    by simp_all
next
  assume h: "\<not> existsSync branchPath w
      \<and> fst (cloneBranch env username repo branch branchPath retries w)"
  then have "cloneBranch_loop env username repo branch branchPath retries 1 w =
           (True, snd (cloneBranch env username repo branch branchPath retries w))"
    by (simp add: cloneBranch_def prod_eq_iff)
  from cloneBranch_loop_True [OF this] h
  show "\<exists>found. fs (snd (cloneBranch env username repo branch branchPath retries w)) branchPath
                    = Some found
                \<and> filter (\<lambda>item. item \<noteq> ''.git'') found \<noteq> []"
    by blast
qed

theorem cloneBranch_empty_branch_witness:
  "fst (cloneBranch_loop (scripted (\<lambda>t page. Ok []) (\<lambda>t. Ok []) (\<lambda>t. CloneOk [''.git'']))
          ''octocat'' original ''main'' ''out/written/main'' 3 1 (on_disk [(''out/written'', [])]))
     = False
   \<and> \<not> existsSync ''out/written/main''
         (snd (cloneBranch_loop (scripted (\<lambda>t page. Ok []) (\<lambda>t. Ok []) (\<lambda>t. CloneOk [''.git'']))
            ''octocat'' original ''main'' ''out/written/main'' 3 1
            (on_disk [(''out/written'', [])])))
   \<and> fst (cloneBranch
            (scripted (\<lambda>t page. Ok []) (\<lambda>t. Ok []) (\<lambda>t. CloneOk [''.git'', ''README.md'']))
            ''octocat'' original ''main'' ''out/written/main'' 3 (on_disk [(''out/written'', [])]))
   \<and> (\<exists>found. fs (snd (cloneBranch
            (scripted (\<lambda>t page. Ok []) (\<lambda>t. Ok []) (\<lambda>t. CloneOk [''.git'', ''README.md'']))
            ''octocat'' original ''main'' ''out/written/main'' 3
            (on_disk [(''out/written'', [])]))) ''out/written/main'' = Some found
         \<and> filter (\<lambda>item. item \<noteq> ''.git'') found \<noteq> [])"
proof -
  let ?empty = "scripted (\<lambda>t page. Ok []) (\<lambda>t. Ok []) (\<lambda>t. CloneOk [''.git''])"
  let ?full = "scripted (\<lambda>t page. Ok []) (\<lambda>t. Ok []) (\<lambda>t. CloneOk [''.git'', ''README.md''])"
  let ?w = "on_disk [(''out/written'', [])]"
  have cloned: "fst (cloneBranch ?full ''octocat'' original ''main'' ''out/written/main'' 3 ?w)"
    by (simp add: cloneBranch_def cloneBranch_loop.simps cloneBranch_try_def git_clone_def
          write_dir_def readdirSync_def existsSync_def on_disk_def scripted_def Let_def)
  have "fst (cloneBranch_loop ?empty ''octocat'' original ''main'' ''out/written/main'' 3 1 ?w)
          = False
      \<and> \<not> existsSync ''out/written/main''
            (snd (cloneBranch_loop ?empty ''octocat'' original ''main'' ''out/written/main'' 3 1 ?w))"
    by (rule cloneBranch_empty_branch [THEN conjunct1, rule_format, where items = "[''.git'']"])
       (simp add: existsSync_def on_disk_def scripted_def)
  moreover have "\<exists>found. fs (snd (cloneBranch ?full ''octocat'' original ''main''
                                  ''out/written/main'' 3 ?w)) ''out/written/main'' = Some found
         \<and> filter (\<lambda>item. item \<noteq> ''.git'') found \<noteq> []"
    using cloned
    by (intro cloneBranch_empty_branch [THEN conjunct2, rule_format])
       (simp add: existsSync_def on_disk_def)
  ultimately show ?thesis using cloned by simp
qed

text \<open>
  C9. In branch mode, when the branch list of a repository is not empty and every call
  of \<^verbatim>\<open>cloneBranch\<close> in the loop returns \<^verbatim>\<open>false\<close>, the result of \<^verbatim>\<open>cloneRepo\<close>
  has \<^verbatim>\<open>success = false\<close>, the directory of the repository is not on disk afterwards,
  and the step of the main loop adds one to the failed repositories and nothing else.
\<close>

theorem cloneRepo_all_branches_fail:
  fixes env username repo outputDir w
  defines "repoPath \<equiv> path_join outputDir (name repo)"
  defines "listed \<equiv> fetchBranches env username (name repo)
                      (if \<not> existsSync repoPath w then mkdirSync repoPath w else w)"
  assumes "fst listed \<noteq> []"
    and "\<forall>ok \<in> set (branch_results env username repo repoPath (fst listed) (snd listed)). \<not> ok"
  shows "\<not> success (fst (cloneRepo env username repo outputDir w))
       \<and> \<not> existsSync repoPath (snd (cloneRepo env username repo outputDir w))
       \<and> fst (main_step env username outputDir True repo (t, w))
           = t\<lparr>totalFailedRepos := totalFailedRepos t + 1\<rparr>
       \<and> \<not> existsSync repoPath (snd (main_step env username outputDir True repo (t, w)))"
proof -
  obtain branches w1 where l: "listed = (branches, w1)" by (cases listed)
  obtain s f w2 where
    loop: "cloneRepo_loop env username repo repoPath branches 0 0 w1 = (s, f, w2)"
    by (cases "cloneRepo_loop env username repo repoPath branches 0 0 w1")
  have l': "fetchBranches env username (name repo)
             (if \<not> existsSync (path_join outputDir (name repo)) w
              then mkdirSync (path_join outputDir (name repo)) w else w) = (branches, w1)"
    using l unfolding listed_def repoPath_def .
  have loop': "cloneRepo_loop env username repo (path_join outputDir (name repo)) branches 0 0 w1
                 = (s, f, w2)"
    using loop unfolding repoPath_def .
  have "filter id (branch_results env username repo repoPath branches w1) = []"
    using assms(4) l by (auto simp: filter_empty_conv)
  then have s: "s = 0"
    using cloneRepo_loop_counts [OF loop] by simp
  have "cloneRepo env username repo outputDir w =
          (\<lparr>success = (s > 0), successfulBranches = s, failedBranches = f\<rparr>,
           if s = 0 then rmSync (path_join outputDir (name repo)) w2 else w2)"
  proof (rule cloneRepo_result [OF l' _ loop'])
    show "branches \<noteq> []" using assms(3) l by simp
  qed
  then have r: "cloneRepo env username repo outputDir w =
          (\<lparr>success = False, successfulBranches = 0, failedBranches = f\<rparr>, rmSync repoPath w2)"
    using s by (simp add: repoPath_def)
  show ?thesis
    by (simp add: r main_step_def)
qed

theorem cloneRepo_all_branches_fail_witness:
  "fst (fetchBranches
          (scripted (\<lambda>t page. Ok []) (\<lambda>t. Ok two_branches) (\<lambda>t. CloneFailed ''timeout'' None))
          ''octocat'' ''written'' (mkdirSync ''out/written'' (on_disk [])))
     = [''main'', ''dev'']
   \<and> \<not> success (fst (cloneRepo
          (scripted (\<lambda>t page. Ok []) (\<lambda>t. Ok two_branches) (\<lambda>t. CloneFailed ''timeout'' None))
          ''octocat'' original ''out'' (on_disk [])))
   \<and> \<not> existsSync (path_join ''out'' (name original)) (snd (cloneRepo
          (scripted (\<lambda>t page. Ok []) (\<lambda>t. Ok two_branches) (\<lambda>t. CloneFailed ''timeout'' None))
          ''octocat'' original ''out'' (on_disk [])))
   \<and> fst (main_step
          (scripted (\<lambda>t page. Ok []) (\<lambda>t. Ok two_branches) (\<lambda>t. CloneFailed ''timeout'' None))
          ''octocat'' ''out'' True original (no_totals, on_disk []))
     = no_totals\<lparr>totalFailedRepos := totalFailedRepos no_totals + 1\<rparr>
   \<and> \<not> existsSync (path_join ''out'' (name original)) (snd (main_step
          (scripted (\<lambda>t page. Ok []) (\<lambda>t. Ok two_branches) (\<lambda>t. CloneFailed ''timeout'' None))
          ''octocat'' ''out'' True original (no_totals, on_disk [])))"
proof -
  let ?env = "scripted (\<lambda>t page. Ok []) (\<lambda>t. Ok two_branches) (\<lambda>t. CloneFailed ''timeout'' None)"
  let ?repoPath = "path_join ''out'' (name original)"
  let ?listed = "fetchBranches ?env ''octocat'' (name original)
                   (if \<not> existsSync ?repoPath (on_disk [])
                    then mkdirSync ?repoPath (on_disk []) else on_disk [])"
  have asked: "fetchBranches ?env ''octocat'' ''written'' (mkdirSync ''out/written'' (on_disk [])) =
      ([''main'', ''dev''],
       (mkdirSync ''out/written'' (on_disk []))
         \<lparr>requests := [Branches ''octocat'' ''written''], tick := 1\<rparr>)"
    by (simp add: fetchBranches_def fetchBranches_loop.simps get_branches_def maxRetries_def
          scripted_def on_disk_def two_branches_def mkdirSync_def)
  have listed: "?listed =
      ([''main'', ''dev''],
       (mkdirSync ''out/written'' (on_disk []))
         \<lparr>requests := [Branches ''octocat'' ''written''], tick := 1\<rparr>)"
    using asked by (simp add: existsSync_def on_disk_def path_join_def original_def)
  have names: "fst ?listed \<noteq> []"
    unfolding listed by simp
  have fail: "\<forall>ok \<in> set (branch_results ?env ''octocat'' original ?repoPath
                            (fst ?listed) (snd ?listed)). \<not> ok"
    unfolding listed
    by (simp add: cloneBranch_def cloneBranch_loop.simps cloneBranch_try_def git_clone_def
          cloneUrl_def existsSync_def mkdirSync_def rmSync_def path_join_def below_def
          delay_def branchDirName_def scripted_def on_disk_def original_def Let_def)
  have first: "fst (fetchBranches ?env ''octocat'' ''written''
                      (mkdirSync ''out/written'' (on_disk []))) = [''main'', ''dev'']"
    unfolding asked by simp
  show ?thesis
    using first cloneRepo_all_branches_fail [OF names fail, of no_totals] by blast
qed

text \<open>
  C10. In branch mode, when the branch list is not empty, the result of \<^verbatim>\<open>cloneRepo\<close>
  counts every branch once: the successes are the calls of \<^verbatim>\<open>cloneBranch\<close> that
  returned \<^verbatim>\<open>true\<close>, the failures those that returned \<^verbatim>\<open>false\<close>, their sum is the
  number of branches, and \<^verbatim>\<open>success\<close> says whether there was a success.
\<close>

theorem cloneRepo_counts_every_branch:
  fixes env username repo outputDir w
  defines "repoPath \<equiv> path_join outputDir (name repo)"
  defines "listed \<equiv> fetchBranches env username (name repo)
                      (if \<not> existsSync repoPath w then mkdirSync repoPath w else w)"
  defines "outcomes \<equiv> branch_results env username repo repoPath (fst listed) (snd listed)"
  defines "result \<equiv> fst (cloneRepo env username repo outputDir w)"
  assumes "fst listed \<noteq> []"
  shows "successfulBranches result + failedBranches result = length (fst listed)
       \<and> success result = (successfulBranches result > 0)
       \<and> successfulBranches result = length (filter id outcomes)
       \<and> failedBranches result = length (filter Not outcomes)"
proof -
  obtain branches w1 where l: "listed = (branches, w1)" by (cases listed)
  obtain s f w2 where
    loop: "cloneRepo_loop env username repo repoPath branches 0 0 w1 = (s, f, w2)"
    by (cases "cloneRepo_loop env username repo repoPath branches 0 0 w1")
  have l': "fetchBranches env username (name repo)
             (if \<not> existsSync (path_join outputDir (name repo)) w
              then mkdirSync (path_join outputDir (name repo)) w else w) = (branches, w1)"
    using l unfolding listed_def repoPath_def .
  have loop': "cloneRepo_loop env username repo (path_join outputDir (name repo)) branches 0 0 w1
                 = (s, f, w2)"
    using loop unfolding repoPath_def .
  have counts: "s = length (filter id outcomes)" "f = length (filter Not outcomes)"
    using cloneRepo_loop_counts [OF loop] l by (simp_all add: outcomes_def)
  have "cloneRepo env username repo outputDir w =
          (\<lparr>success = (s > 0), successfulBranches = s, failedBranches = f\<rparr>,
           if s = 0 then rmSync (path_join outputDir (name repo)) w2 else w2)"
  proof (rule cloneRepo_result [OF l' _ loop'])
    show "branches \<noteq> []" using assms(5) l by simp
  qed
  then have r: "result = \<lparr>success = (s > 0), successfulBranches = s, failedBranches = f\<rparr>"
    by (simp add: result_def)
  have "length outcomes = length (fst listed)"
    by (simp add: outcomes_def length_branch_results)
  then have "s + f = length (fst listed)"
    using counts length_filter_id_Not [of outcomes] by simp
  then show ?thesis
    using counts by (simp add: r)
qed

theorem cloneRepo_counts_every_branch_witness:
  "fst (fetchBranches
          (scripted (\<lambda>t page. Ok []) (\<lambda>t. Ok two_branches)
             (\<lambda>t. if t = 1 then CloneOk [''.git'', ''README.md''] else CloneFailed ''timeout'' None))
          ''octocat'' ''written'' (mkdirSync ''out/written'' (on_disk [])))
     = [''main'', ''dev'']
   \<and> successfulBranches (fst (cloneRepo
          (scripted (\<lambda>t page. Ok []) (\<lambda>t. Ok two_branches)
             (\<lambda>t. if t = 1 then CloneOk [''.git'', ''README.md''] else CloneFailed ''timeout'' None))
          ''octocat'' original ''out'' (on_disk []))) = 1
   \<and> failedBranches (fst (cloneRepo
          (scripted (\<lambda>t page. Ok []) (\<lambda>t. Ok two_branches)
             (\<lambda>t. if t = 1 then CloneOk [''.git'', ''README.md''] else CloneFailed ''timeout'' None))
          ''octocat'' original ''out'' (on_disk []))) = 1
   \<and> success (fst (cloneRepo
          (scripted (\<lambda>t page. Ok []) (\<lambda>t. Ok two_branches)
             (\<lambda>t. if t = 1 then CloneOk [''.git'', ''README.md''] else CloneFailed ''timeout'' None))
          ''octocat'' original ''out'' (on_disk [])))"
proof -
  let ?env = "scripted (\<lambda>t page. Ok []) (\<lambda>t. Ok two_branches)
      (\<lambda>t. if t = 1 then CloneOk [''.git'', ''README.md''] else CloneFailed ''timeout'' None)"
  let ?repoPath = "path_join ''out'' (name original)"
  let ?listed = "fetchBranches ?env ''octocat'' (name original)
                   (if \<not> existsSync ?repoPath (on_disk [])
                    then mkdirSync ?repoPath (on_disk []) else on_disk [])"
  let ?result = "fst (cloneRepo ?env ''octocat'' original ''out'' (on_disk []))"
  have asked: "fetchBranches ?env ''octocat'' ''written'' (mkdirSync ''out/written'' (on_disk [])) =
      ([''main'', ''dev''],
       (mkdirSync ''out/written'' (on_disk []))
         \<lparr>requests := [Branches ''octocat'' ''written''], tick := 1\<rparr>)"
    by (simp add: fetchBranches_def fetchBranches_loop.simps get_branches_def maxRetries_def
          scripted_def on_disk_def two_branches_def mkdirSync_def)
  have listed: "?listed =
      ([''main'', ''dev''],
       (mkdirSync ''out/written'' (on_disk []))
         \<lparr>requests := [Branches ''octocat'' ''written''], tick := 1\<rparr>)"
    using asked by (simp add: existsSync_def on_disk_def path_join_def original_def)
  have names: "fst ?listed \<noteq> []"
    unfolding listed by simp
  have outcomes: "branch_results ?env ''octocat'' original ?repoPath (fst ?listed) (snd ?listed)
                    = [True, False]"
    unfolding listed
    by (simp add: cloneBranch_def cloneBranch_loop.simps cloneBranch_try_def git_clone_def
          cloneUrl_def existsSync_def mkdirSync_def rmSync_def write_dir_def readdirSync_def
          update_submodules_def path_join_def below_def delay_def branchDirName_def
          scripted_def on_disk_def original_def Let_def)
  have first: "fst (fetchBranches ?env ''octocat'' ''written''
                      (mkdirSync ''out/written'' (on_disk []))) = [''main'', ''dev'']"
    unfolding asked by simp
  have "successfulBranches ?result = 1 \<and> failedBranches ?result = 1 \<and> success ?result"
    using cloneRepo_counts_every_branch [OF names] unfolding outcomes by simp
  then show ?thesis
    using first by blast
qed

end
